theory Spec2Isabelle
  imports Complex_Main "HOL-Library.Sublist"
begin

section \<open>Values\<close>

text \<open>
  A Python \<open>str\<close> is a sequence of Unicode code points, so it is modelled as a list of
  code points. The labels of the report are Cyrillic and are written out by code point;
  ASCII text is written as a HOL string and converted.

  Numbers: the readings are Python \<open>int\<close>s and \<open>float\<close>s, mixed freely by the
  arithmetic of the source. They are modelled by their exact values as rationals, and the
  arithmetic is exact: the rounding, the range and the special values of IEEE doubles are
  not part of this model. Division by zero raises, as in Python.
\<close>

type_synonym str = "nat list"

type_synonym num = rat

definition ascii :: "string \<Rightarrow> str" where
  "ascii s = map of_char s"

datatype error =
    KeyError str
  | TypeError
  | ZeroDivisionError
  | NotImplementedError
  | AttributeError

section \<open>The training classes\<close>

text \<open>
  An object is its class together with its instance fields, in the order of the generated
  \<open>__init__\<close>. \<open>Running\<close> and \<open>Swimming\<close> annotate their coefficients, which makes
  them dataclass fields with defaults; \<open>Training\<close> and \<open>SportsWalking\<close> assign theirs
  without annotation, which makes them plain class attributes.
\<close>

datatype training =
    Training (action: num) (duration: num) (weight: num)
  | Running (action: num) (duration: num) (weight: num) num num
  | SportsWalking (action: num) (duration: num) (weight: num) num
  | Swimming (action: num) (duration: num) (weight: num) num num num num num

definition M_IN_KM :: num where
  "M_IN_KM = 1000"

definition MIN_IN_H :: num where
  "MIN_IN_H = 60"

definition COEFF_OF_WEIGHT :: num where
  "COEFF_OF_WEIGHT = 0.035"

definition COEFF_OF_ACCELERATION :: num where
  "COEFF_OF_ACCELERATION = 0.029"

text \<open>\<open>self.LEN_STEP\<close>: the instance field of a \<open>Swimming\<close> object, the class
  attribute of \<open>Training\<close> otherwise.\<close>

fun LEN_STEP :: "training \<Rightarrow> num" where
  "LEN_STEP (Swimming a d w lp cp ls cs cw) = ls"
| "LEN_STEP t = 0.65"

text \<open>\<open>type(self).__name__\<close>\<close>

fun class_name :: "training \<Rightarrow> str" where
  "class_name (Training a d w) = ascii ''Training''"
| "class_name (Running a d w cs sc) = ascii ''Running''"
| "class_name (SportsWalking a d w h) = ascii ''SportsWalking''"
| "class_name (Swimming a d w lp cp ls cs cw) = ascii ''Swimming''"

definition get_distance :: "training \<Rightarrow> num" where
  "get_distance self = action self * LEN_STEP self / M_IN_KM"

text \<open>True division: \<open>ZeroDivisionError\<close> on a zero divisor.\<close>

definition truediv :: "num \<Rightarrow> num \<Rightarrow> error + num" where
  "truediv a b = (if b = 0 then Inl ZeroDivisionError else Inr (a / b))"

text \<open>Floor division \<open>//\<close>: the floor of the quotient, \<open>ZeroDivisionError\<close> on a zero
  divisor.\<close>

definition floordiv :: "num \<Rightarrow> num \<Rightarrow> error + num" where
  "floordiv a b = (if b = 0 then Inl ZeroDivisionError else Inr (of_int \<lfloor>a / b\<rfloor>))"

fun get_mean_speed :: "training \<Rightarrow> error + num" where
  "get_mean_speed (Swimming a d w lp cp ls cs cw) = truediv (lp * cp / M_IN_KM) d"
| "get_mean_speed self = truediv (get_distance self) (duration self)"

fun get_spent_calories :: "training \<Rightarrow> error + num" where
  "get_spent_calories (Training a d w) = Inl NotImplementedError"
| "get_spent_calories (Running a d w cs sc) =
     (case get_mean_speed (Running a d w cs sc) of
        Inl e \<Rightarrow> Inl e
      | Inr ms \<Rightarrow> Inr ((cs * ms - sc) * w / M_IN_KM * d * MIN_IN_H))"
| "get_spent_calories (SportsWalking a d w h) =
     (case get_mean_speed (SportsWalking a d w h) of
        Inl e \<Rightarrow> Inl e
      | Inr ms \<Rightarrow>
          (case floordiv (ms ^ 2) h of
             Inl e \<Rightarrow> Inl e
           | Inr q \<Rightarrow>
               Inr ((COEFF_OF_WEIGHT * w + q * COEFF_OF_ACCELERATION * w) * d * MIN_IN_H)))"
| "get_spent_calories (Swimming a d w lp cp ls cs cw) =
     (case get_mean_speed (Swimming a d w lp cp ls cs cw) of
        Inl e \<Rightarrow> Inl e
      | Inr ms \<Rightarrow> Inr ((ms + cs) * cw * w))"

section \<open>Construction from a package\<close>

text \<open>
  The \<open>__init__\<close> that \<open>@dataclass\<close> generates takes the fields positionally, in
  order; a field with a default may be left out. Too few or too many arguments raise
  \<open>TypeError\<close>. A class is described by the defaults of its fields, \<open>None\<close> for a
  field without one.
\<close>

fun bind_args :: "num option list \<Rightarrow> num list \<Rightarrow> error + num list" where
  "bind_args [] [] = Inr []"
| "bind_args [] (x # xs) = Inl TypeError"
| "bind_args (None # fs) [] = Inl TypeError"
| "bind_args (Some v # fs) [] =
     (case bind_args fs [] of Inl e \<Rightarrow> Inl e | Inr vs \<Rightarrow> Inr (v # vs))"
| "bind_args (f # fs) (x # xs) =
     (case bind_args fs xs of Inl e \<Rightarrow> Inl e | Inr vs \<Rightarrow> Inr (x # vs))"

datatype cls = Swimming_cls | Running_cls | SportsWalking_cls

fun dataclass_fields :: "cls \<Rightarrow> num option list" where
  "dataclass_fields Running_cls = [None, None, None, Some 18, Some 20]"
| "dataclass_fields SportsWalking_cls = [None, None, None, None]"
| "dataclass_fields Swimming_cls = [None, None, None, None, None, Some 1.38, Some 1.1, Some 2]"

fun instance_of :: "cls \<Rightarrow> num list \<Rightarrow> error + training" where
  "instance_of Running_cls [a, d, w, cs, sc] = Inr (Running a d w cs sc)"
| "instance_of SportsWalking_cls [a, d, w, h] = Inr (SportsWalking a d w h)"
| "instance_of Swimming_cls [a, d, w, lp, cp, ls, cs, cw] = Inr (Swimming a d w lp cp ls cs cw)"
| "instance_of c vs = Inl TypeError"

definition instantiate :: "cls \<Rightarrow> num list \<Rightarrow> error + training" where
  "instantiate c data =
     (case bind_args (dataclass_fields c) data of Inl e \<Rightarrow> Inl e | Inr vs \<Rightarrow> instance_of c vs)"

definition CONFORMITY_TO_CLASSES :: "(str \<times> cls) list" where
  "CONFORMITY_TO_CLASSES =
     [(ascii ''SWM'', Swimming_cls),
      (ascii ''RUN'', Running_cls),
      (ascii ''WLK'', SportsWalking_cls)]"

text \<open>The message of the \<open>KeyError\<close> is an ordinary string literal whose text begins
  with the letter f and a quote: \<open>f'Neizvestnyj kod {workout_type}'\<close>, the two words in
  Cyrillic. Nothing is substituted into it.\<close>

definition unknown_code_message :: str where
  "unknown_code_message =
     ascii ''f'' @ [39] @
     [1053, 1077, 1080, 1079, 1074, 1077, 1089, 1090, 1085, 1099, 1081] @ ascii '' '' @
     [1082, 1086, 1076] @ ascii '' {workout_type}'' @ [39]"

definition read_package :: "str \<Rightarrow> num list \<Rightarrow> error + training" where
  "read_package workout_type data =
     (case map_of CONFORMITY_TO_CLASSES workout_type of
        None \<Rightarrow> Inl (KeyError unknown_code_message)
      | Some c \<Rightarrow> instantiate c data)"

section \<open>The report\<close>

record InfoMessage =
  training_type :: str
  duration' :: num
  distance :: num
  speed :: num
  calories :: num

text \<open>The arguments of \<open>InfoMessage(...)\<close> are evaluated from left to right, so a
  failing \<open>get_mean_speed\<close> is raised before \<open>get_spent_calories\<close> is called.\<close>

definition show_training_info :: "training \<Rightarrow> error + InfoMessage" where
  "show_training_info self =
     (case get_mean_speed self of
        Inl e \<Rightarrow> Inl e
      | Inr sp \<Rightarrow>
          (case get_spent_calories self of
             Inl e \<Rightarrow> Inl e
           | Inr cal \<Rightarrow>
               Inr \<lparr>training_type = class_name self,
                    duration' = duration self,
                    distance = get_distance self,
                    speed = sp,
                    calories = cal\<rparr>))"

text \<open>
  The format specification \<open>.3f\<close>: a minus sign for a negative number, the integer
  part in decimal, a point and three digits, the number rounded to the nearest
  thousandth and a tie to the even one.
\<close>

definition round_half_even :: "num \<Rightarrow> int" where
  "round_half_even x =
     (let f = \<lfloor>x\<rfloor>; r = x - of_int f
      in if r < 1 / 2 then f else if 1 / 2 < r then f + 1 else if even f then f else f + 1)"

fun digits :: "nat \<Rightarrow> str" where
  "digits n = (if n < 10 then [48 + n] else digits (n div 10) @ [48 + n mod 10])"

declare digits.simps [simp del]

definition format_3f :: "num \<Rightarrow> str" where
  "format_3f x =
     (let n = nat (round_half_even (\<bar>x\<bar> * 1000))
      in (if x < 0 then ascii ''-'' else []) @ digits (n div 1000) @ ascii ''.'' @
         [48 + n div 100 mod 10, 48 + n div 10 mod 10, 48 + n mod 10])"

text \<open>The labels, transliterated: \<open>Tip trenirovki\<close>, \<open>Dlitel'nost'\<close> and the unit
  \<open>ch.\<close>, \<open>Distancija\<close> and the unit \<open>km\<close>, \<open>Sr. skorost'\<close> and the unit
  \<open>km/ch\<close>, \<open>Potracheno kkal\<close>.\<close>

definition get_message :: "InfoMessage \<Rightarrow> str" where
  "get_message self =
     [1058, 1080, 1087, 32, 1090, 1088, 1077, 1085, 1080, 1088, 1086, 1074, 1082, 1080, 58, 32]
       @ training_type self @ [59, 32] @
     [1044, 1083, 1080, 1090, 1077, 1083, 1100, 1085, 1086, 1089, 1090, 1100, 58, 32]
       @ format_3f (duration' self) @ [32, 1095, 46, 59, 32] @
     [1044, 1080, 1089, 1090, 1072, 1085, 1094, 1080, 1103, 58, 32]
       @ format_3f (distance self) @ [32, 1082, 1084, 59, 32] @
     [1057, 1088, 46, 32, 1089, 1082, 1086, 1088, 1086, 1089, 1090, 1100, 58, 32]
       @ format_3f (speed self) @ [32, 1082, 1084, 47, 1095, 59, 32] @
     [1055, 1086, 1090, 1088, 1072, 1095, 1077, 1085, 1086, 32, 1082, 1082, 1072, 1083, 58, 32]
       @ format_3f (calories self) @ [46]"

section \<open>The driver\<close>

fun join :: "str \<Rightarrow> str list \<Rightarrow> str" where
  "join sep [] = []"
| "join sep [x] = x"
| "join sep (x # y # ys) = x @ sep @ join sep (y # ys)"

definition AVAILABLE_CODES_STR :: str where
  "AVAILABLE_CODES_STR = join (ascii '', '') (map fst CONFORMITY_TO_CLASSES)"

text \<open>
  \<open>main\<close> receives a training or \<open>None\<close> and the lines printed so far, and returns how
  it ends together with the lines printed. The body of the conditional runs for
  \<open>None\<close> only, where looking up \<open>show_training_info\<close> raises \<open>AttributeError\<close>;
  after the conditional the function raises \<open>AttributeError\<close> in every case.
\<close>

definition main :: "training option \<Rightarrow> str list \<Rightarrow> (error + unit) \<times> str list" where
  "main training out =
     (if training = None then
        (case training of
           None \<Rightarrow> (Inl AttributeError, out)
         | Some t \<Rightarrow>
             (case show_training_info t of
                Inl e \<Rightarrow> (Inl e, out)
              | Inr m \<Rightarrow> (Inl AttributeError, out @ [get_message m])))
      else (Inl AttributeError, out))"




section \<open>Auxiliary facts\<close>

subsection \<open>Arithmetic on rationals\<close>

lemma floor_rat_numeral [simp]:
  "\<lfloor>(numeral a :: rat) / numeral b\<rfloor> = numeral a div numeral b"
  using floor_divide_of_int_eq [of "numeral a" "numeral b", where ?'a = rat] by simp

lemma floor_rat_one [simp]: "\<lfloor>(1 :: rat) / numeral b\<rfloor> = 1 div numeral b"
  using floor_divide_of_int_eq [of 1 "numeral b", where ?'a = rat] by simp

lemmas consts_defs = M_IN_KM_def MIN_IN_H_def COEFF_OF_WEIGHT_def COEFF_OF_ACCELERATION_def

subsection \<open>Dispatch and construction\<close>

lemma read_package_RUN: "read_package (ascii ''RUN'') data = instantiate Running_cls data"
  by (simp add: read_package_def CONFORMITY_TO_CLASSES_def ascii_def)

lemma read_package_WLK: "read_package (ascii ''WLK'') data = instantiate SportsWalking_cls data"
  by (simp add: read_package_def CONFORMITY_TO_CLASSES_def ascii_def)

lemma read_package_SWM: "read_package (ascii ''SWM'') data = instantiate Swimming_cls data"
  by (simp add: read_package_def CONFORMITY_TO_CLASSES_def ascii_def)

lemma read_package_unknown:
  assumes "workout_type \<noteq> ascii ''SWM''" "workout_type \<noteq> ascii ''RUN''"
    "workout_type \<noteq> ascii ''WLK''"
  shows "read_package workout_type data = Inl (KeyError unknown_code_message)"
  using assms by (simp add: read_package_def CONFORMITY_TO_CLASSES_def)

lemma instantiate_Running:
  "instantiate Running_cls [a, d, w] = Inr (Running a d w 18 20)"
  "instantiate Running_cls [a, d, w, cs] = Inr (Running a d w cs 20)"
  "instantiate Running_cls [a, d, w, cs, sc] = Inr (Running a d w cs sc)"
  by (simp_all add: instantiate_def)


lemma instantiate_Swimming:
  "instantiate Swimming_cls [a, d, w, lp, cp] = Inr (Swimming a d w lp cp 1.38 1.1 2)"
  "instantiate Swimming_cls [a, d, w, lp, cp, ls] = Inr (Swimming a d w lp cp ls 1.1 2)"
  "instantiate Swimming_cls [a, d, w, lp, cp, ls, cs] = Inr (Swimming a d w lp cp ls cs 2)"
  "instantiate Swimming_cls [a, d, w, lp, cp, ls, cs, cw] = Inr (Swimming a d w lp cp ls cs cw)"
  by (simp_all add: instantiate_def)

lemma bind_args_Inr_iff:
  "(\<exists>vs. bind_args fs xs = Inr vs) \<longleftrightarrow>
     length xs \<le> length fs \<and> list_all (\<lambda>f. f \<noteq> None) (drop (length xs) fs)"
  by (induction fs xs rule: bind_args.induct) (auto split: sum.splits)

lemma bind_args_error: "bind_args fs xs = Inl e \<Longrightarrow> e = TypeError"
  by (induction fs xs rule: bind_args.induct) (auto split: sum.splits)

lemma instance_of_error: "instance_of c vs = Inl e \<Longrightarrow> e = TypeError"
  by (induction c vs rule: instance_of.induct) auto

lemma instantiate_error: "instantiate c data = Inl e \<Longrightarrow> e = TypeError"
  using bind_args_error instance_of_error
  by (fastforce simp: instantiate_def split: sum.splits)

lemma length_le_cases:
  "length xs \<le> 8 \<Longrightarrow>
   xs = [] \<or> (\<exists>a. xs = [a]) \<or> (\<exists>a b. xs = [a, b]) \<or> (\<exists>a b c. xs = [a, b, c]) \<or>
   (\<exists>a b c d. xs = [a, b, c, d]) \<or> (\<exists>a b c d e. xs = [a, b, c, d, e]) \<or>
   (\<exists>a b c d e f. xs = [a, b, c, d, e, f]) \<or> (\<exists>a b c d e f g. xs = [a, b, c, d, e, f, g]) \<or>
   (\<exists>a b c d e f g h. xs = [a, b, c, d, e, f, g, h])"
proof -
  assume "length xs \<le> 8"
  then consider "length xs = 0" | "length xs = Suc 0" | "length xs = Suc (Suc 0)"
    | "length xs = Suc (Suc (Suc 0))" | "length xs = Suc (Suc (Suc (Suc 0)))"
    | "length xs = Suc (Suc (Suc (Suc (Suc 0))))"
    | "length xs = Suc (Suc (Suc (Suc (Suc (Suc 0)))))"
    | "length xs = Suc (Suc (Suc (Suc (Suc (Suc (Suc 0))))))"
    | "length xs = Suc (Suc (Suc (Suc (Suc (Suc (Suc (Suc 0)))))))"
    by linarith
  then show ?thesis
    by cases (auto simp: length_Suc_conv)
qed

lemma instantiate_too_long:
  "length (dataclass_fields c) < length data \<Longrightarrow> instantiate c data = Inl TypeError"
proof -
  assume "length (dataclass_fields c) < length data"
  then have "\<not> (\<exists>vs. bind_args (dataclass_fields c) data = Inr vs)"
    by (simp add: bind_args_Inr_iff)
  then obtain e where "bind_args (dataclass_fields c) data = Inl e"
    by (cases "bind_args (dataclass_fields c) data") auto
  then show ?thesis
    using bind_args_error by (fastforce simp: instantiate_def)
qed

text \<open>What \<open>read_package\<close> does for each number of readings: \<open>RUN\<close> takes three to
  five, \<open>WLK\<close> exactly four, \<open>SWM\<close> five to eight; any other number raises
  \<open>TypeError\<close>.\<close>

lemma read_package_RUN_arity:
  "read_package (ascii ''RUN'') data =
     (if 3 \<le> length data \<and> length data \<le> 5
      then Inr (Running (data ! 0) (data ! 1) (data ! 2)
                  (if 3 < length data then data ! 3 else 18)
                  (if 4 < length data then data ! 4 else 20))
      else Inl TypeError)"
proof (cases "length data \<le> 8")
  case True
  from length_le_cases [OF this] show ?thesis
    by (auto simp: read_package_RUN instantiate_def)
next
  case False
  then show ?thesis by (simp add: read_package_RUN instantiate_too_long)
qed

lemma read_package_WLK_arity:
  "read_package (ascii ''WLK'') data =
     (if length data = 4
      then Inr (SportsWalking (data ! 0) (data ! 1) (data ! 2) (data ! 3))
      else Inl TypeError)"
proof (cases "length data \<le> 8")
  case True
  from length_le_cases [OF this] show ?thesis
    by (auto simp: read_package_WLK instantiate_def)
next
  case False
  then show ?thesis by (simp add: read_package_WLK instantiate_too_long)
qed

lemma read_package_SWM_arity:
  "read_package (ascii ''SWM'') data =
     (if 5 \<le> length data \<and> length data \<le> 8
      then Inr (Swimming (data ! 0) (data ! 1) (data ! 2) (data ! 3) (data ! 4)
                  (if 5 < length data then data ! 5 else 1.38)
                  (if 6 < length data then data ! 6 else 1.1)
                  (if 7 < length data then data ! 7 else 2))
      else Inl TypeError)"
proof (cases "length data \<le> 8")
  case True
  from length_le_cases [OF this] show ?thesis
    by (auto simp: read_package_SWM instantiate_def)
next
  case False
  then show ?thesis by (simp add: read_package_SWM instantiate_too_long)
qed



subsection \<open>The computations\<close>




text \<open>A \<open>Swimming\<close> object built from exactly five readings carries the declared
  coefficients.\<close>

lemma swimming_five_readings:
  assumes "d \<noteq> 0"
  shows "read_package (ascii ''SWM'') [a, d, w, lp, cp] = Inr (Swimming a d w lp cp 1.38 1.1 2) \<and>
         get_distance (Swimming a d w lp cp 1.38 1.1 2) = a * 1.38 / 1000 \<and>
         get_mean_speed (Swimming a d w lp cp 1.38 1.1 2) = Inr (lp * cp / 1000 / d) \<and>
         get_spent_calories (Swimming a d w lp cp 1.38 1.1 2) =
           Inr ((lp * cp / 1000 / d + 1.1) * 2 * w)"
  using assms
  by (simp add: read_package_SWM instantiate_Swimming truediv_def get_distance_def consts_defs)

lemma swimming_sample:
  "read_package (ascii ''SWM'') [720, 1, 80, 25, 40] = Inr (Swimming 720 1 80 25 40 1.38 1.1 2) \<and>
   get_mean_speed (Swimming 720 1 80 25 40 1.38 1.1 2) = Inr 1 \<and>
   get_spent_calories (Swimming 720 1 80 25 40 1.38 1.1 2) = Inr 336"
  using swimming_five_readings [of 1 720 80 25 40] by simp

subsection \<open>Rendering a number\<close>











section \<open>The claims\<close>

text \<open>
  C1, as stated, at the sample package: the package \<open>RUN\<close> with the readings
  15000, 1, 75 gives 699.75 calories, not 701.25.
\<close>

theorem running_calories_701_counterexample:
  "read_package (ascii ''RUN'') [15000, 1, 75] = Inr (Running 15000 1 75 18 20) \<and>
   get_spent_calories (Running 15000 1 75 18 20) = Inr 699.75 \<and>
   get_spent_calories (Running 15000 1 75 18 20) \<noteq> Inr 701.25"
  by (simp add: read_package_RUN instantiate_Running truediv_def get_distance_def consts_defs)

text \<open>
  C1, amended. For a \<open>Running\<close> object built from exactly three readings with a nonzero
  duration, the distance is \<open>action * 0.65 / 1000\<close>, the mean speed is the distance
  divided by the duration, and the spent calories are
  \<open>(18 * mean_speed - 20) * weight / 1000 * duration * 60\<close>. The package \<open>RUN\<close> with
  the readings 15000, 1, 75 gives the distance 9.75, the mean speed 9.75 and 699.75
  calories.
\<close>

theorem running_calories:
  assumes "d \<noteq> 0"
  shows "read_package (ascii ''RUN'') [a, d, w] = Inr (Running a d w 18 20) \<and>
         get_distance (Running a d w 18 20) = a * 0.65 / 1000 \<and>
         get_mean_speed (Running a d w 18 20) = Inr (get_distance (Running a d w 18 20) / d) \<and>
         get_spent_calories (Running a d w 18 20) =
           Inr ((18 * (get_distance (Running a d w 18 20) / d) - 20) * w / 1000 * d * 60)"
  using assms
  by (simp add: read_package_RUN instantiate_Running truediv_def get_distance_def consts_defs)

text \<open>The sample package of C1.\<close>

theorem running_calories_witness:
  "read_package (ascii ''RUN'') [15000, 1, 75] = Inr (Running 15000 1 75 18 20) \<and>
   get_distance (Running 15000 1 75 18 20) = 9.75 \<and>
   get_mean_speed (Running 15000 1 75 18 20) = Inr 9.75 \<and>
   get_spent_calories (Running 15000 1 75 18 20) = Inr 699.75"
  using running_calories [of 1 15000 75] by (simp add: get_distance_def consts_defs)

text \<open>
  C2. Every \<open>Swimming\<close> object is claimed to use the step length 1.38 and the calorie
  coefficients 1.1 and 2. The sixth to eighth readings of a package replace them: with
  the readings 720, 1, 80, 25, 40, 2, 3, 4 the distance is computed with the step length
  2 and the calories with the coefficients 3 and 4. The mean speed is the pool formula in
  every case.
\<close>

theorem swimming_extra_readings:
  "read_package (ascii ''SWM'') [720, 1, 80, 25, 40, 2, 3, 4] =
     Inr (Swimming 720 1 80 25 40 2 3 4) \<and>
   get_distance (Swimming 720 1 80 25 40 2 3 4) = 1.44 \<and>
   get_distance (Swimming 720 1 80 25 40 2 3 4) \<noteq> 720 * 1.38 / 1000 \<and>
   get_mean_speed (Swimming 720 1 80 25 40 2 3 4) = Inr 1 \<and>
   get_spent_calories (Swimming 720 1 80 25 40 2 3 4) = Inr 1280 \<and>
   get_spent_calories (Swimming 720 1 80 25 40 2 3 4) \<noteq> Inr ((1 + 1.1) * 2 * 80)"
  by (simp add: read_package_SWM instantiate_Swimming truediv_def get_distance_def consts_defs)



text \<open>
  C4. A package \<open>RUN\<close> is claimed to fail unless it has exactly three readings. With
  the four readings 15000, 1, 75, 10 it succeeds, and the fourth reading is the
  coefficient of the speed; with the two readings 1, 2 it raises \<open>TypeError\<close>.
\<close>

theorem running_extra_reading:
  "read_package (ascii ''RUN'') [15000, 1, 75, 10] = Inr (Running 15000 1 75 10 20) \<and>
   get_spent_calories (Running 15000 1 75 10 20) = Inr 348.75 \<and>
   read_package (ascii ''RUN'') [1, 2] = Inl TypeError"
  by (simp add: read_package_RUN instantiate_Running instantiate_def truediv_def
      get_distance_def consts_defs)

text \<open>
  C5. An unknown code raises \<open>KeyError\<close>, but the message is the same fixed text for
  every code: for the code \<open>XYZ\<close> it contains neither \<open>XYZ\<close> nor the list of the
  valid codes.
\<close>

theorem unknown_code_message_fixed:
  "read_package (ascii ''XYZ'') [1, 2, 3] = Inl (KeyError unknown_code_message) \<and>
   \<not> sublist (ascii ''XYZ'') unknown_code_message \<and>
   \<not> sublist AVAILABLE_CODES_STR unknown_code_message"
proof -
  have "read_package (ascii ''XYZ'') [1, 2, 3] = Inl (KeyError unknown_code_message)"
    by (rule read_package_unknown) (simp_all add: ascii_def)
  moreover have "\<not> sublist (ascii ''XYZ'') unknown_code_message"
    by code_simp
  moreover have "\<not> sublist AVAILABLE_CODES_STR unknown_code_message"
    by code_simp
  ultimately show ?thesis by simp
qed





text \<open>
  C8. \<open>main\<close> prints nothing and raises \<open>AttributeError\<close>, for every training and for
  \<open>None\<close>.
\<close>

theorem main_always_raises: "main training out = (Inl AttributeError, out)"
  by (cases training) (simp_all add: main_def)


text \<open>
  C10. \<open>read_package\<close> accepts three, four or five readings for \<open>RUN\<close>, the fourth and
  fifth taking the place of 18 and 20 in the calories, and five to eight readings for
  \<open>SWM\<close>, the sixth to eighth taking the place of the step length 1.38 and of the
  coefficients 1.1 and 2.
\<close>

theorem defaulted_fields_are_parameters:
  "read_package (ascii ''RUN'') [a, d, w] = Inr (Running a d w 18 20) \<and>
   read_package (ascii ''RUN'') [a, d, w, cs] = Inr (Running a d w cs 20) \<and>
   read_package (ascii ''RUN'') [a, d, w, cs, sc] = Inr (Running a d w cs sc) \<and>
   get_spent_calories (Running a d w cs sc) =
     (if d = 0 then Inl ZeroDivisionError
      else Inr ((cs * (a * 0.65 / 1000 / d) - sc) * w / 1000 * d * 60)) \<and>
   read_package (ascii ''SWM'') [a, d, w, lp, cp] = Inr (Swimming a d w lp cp 1.38 1.1 2) \<and>
   read_package (ascii ''SWM'') [a, d, w, lp, cp, ls] = Inr (Swimming a d w lp cp ls 1.1 2) \<and>
   read_package (ascii ''SWM'') [a, d, w, lp, cp, ls, cf] = Inr (Swimming a d w lp cp ls cf 2) \<and>
   read_package (ascii ''SWM'') [a, d, w, lp, cp, ls, cf, cw] =
     Inr (Swimming a d w lp cp ls cf cw) \<and>
   get_distance (Swimming a d w lp cp ls cf cw) = a * ls / 1000 \<and>
   get_spent_calories (Swimming a d w lp cp ls cf cw) =
     (if d = 0 then Inl ZeroDivisionError else Inr ((lp * cp / 1000 / d + cf) * cw * w))"
  by (simp add: read_package_RUN read_package_SWM instantiate_Running instantiate_Swimming
      truediv_def get_distance_def consts_defs)

end
